theory Spec2Isabelle
  imports Complex_Main "HOL-Library.Multiset"
begin

section \<open>Numbers\<close>

text \<open>
  The program computes with JavaScript numbers. Commit counts and the contributor
  counter are non-negative integers and are modelled as \<open>nat\<close>; scores, thresholds
  and times are finite numbers and are modelled as \<open>real\<close>, with exact arithmetic
  (the rounding of binary64 is not part of the model). The one place where a non-finite
  number can arise is the division by \<open>totalCommits\<close> in the bus-factor loop: in
  JavaScript a division by zero raises nothing, \<open>0 / 0\<close> is \<open>NaN\<close> and
  \<open>x / 0\<close> is \<open>Infinity\<close> for positive \<open>x\<close>. That quotient therefore has
  a type of its own.
\<close>

datatype jsnumber = Num real | Infinity | NaN

definition js_div :: "nat \<Rightarrow> nat \<Rightarrow> jsnumber" where
  "js_div a b =
     (if b = 0 then (if a = 0 then NaN else Infinity) else Num (real a / real b))"

text \<open>\<open>x >= t\<close> for a finite \<open>t\<close>: every comparison with \<open>NaN\<close> is false.\<close>

fun js_ge :: "jsnumber \<Rightarrow> real \<Rightarrow> bool" where
  "js_ge (Num x) t = (t \<le> x)"
| "js_ge Infinity t = True"
| "js_ge NaN t = False"

section \<open>busfactor.ts\<close>

record metricResult =
  busfactor :: real
  busfactory_latency :: real

text \<open>
  One element of \<open>contributorsResponse.data\<close> after the \<open>map\<close> of the source:
  the login and the contribution count.
\<close>

record contributor =
  login :: string
  commits :: nat

text \<open>
  \<open>octokit.repos.listContributors\<close> either resolves with the contributor list or
  rejects; a response whose \<open>data\<close> is no array makes \<open>data.map\<close> throw inside
  the same \<open>try\<close> block.
\<close>

datatype api_error = NetworkError | Unauthorized | RateLimited | NotFound | MalformedResponse

text \<open>
  \<open>contributors.sort((a, b) => b.commits - a.commits)\<close>: descending by commit
  count; the sort of the language is stable.
\<close>

definition sortContributors :: "contributor list \<Rightarrow> contributor list" where
  "sortContributors contributors = sort_key (\<lambda>c. - int (commits c)) contributors"

text \<open>\<open>contributors.reduce((total, contributor) => total + contributor.commits, 0)\<close>\<close>

definition totalCommits :: "contributor list \<Rightarrow> nat" where
  "totalCommits contributors = foldl (\<lambda>total' c. total' + commits c) 0 contributors"

definition percentage :: "nat \<Rightarrow> nat \<Rightarrow> jsnumber" where
  "percentage cumulativeCommits commitTotal =
     (case js_div cumulativeCommits commitTotal of
        Num q \<Rightarrow> Num (q * 100)
      | Infinity \<Rightarrow> Infinity
      | NaN \<Rightarrow> NaN)"

text \<open>
  The \<open>for ... of\<close> loop, with its two running variables \<open>cumulativeCommits\<close>
  and \<open>busFactor\<close>; the \<open>break\<close> is the branch that returns.
\<close>

fun busFactorLoop :: "real \<Rightarrow> nat \<Rightarrow> contributor list \<Rightarrow> nat \<Rightarrow> nat \<Rightarrow> nat" where
  "busFactorLoop threshold commitTotal [] cumulativeCommits busFactor = busFactor"
| "busFactorLoop threshold commitTotal (c # rest) cumulativeCommits busFactor =
     (let cumulativeCommits' = cumulativeCommits + commits c;
          busFactor' = busFactor + 1
      in if js_ge (percentage cumulativeCommits' commitTotal) threshold then busFactor'
         else busFactorLoop threshold commitTotal rest cumulativeCommits' busFactor')"

text \<open>The value of \<open>busFactor\<close> when the \<open>try\<close> block ends normally.\<close>

definition busFactor :: "real \<Rightarrow> contributor list \<Rightarrow> nat" where
  "busFactor threshold data =
     (let contributors = sortContributors data
      in busFactorLoop threshold (totalCommits contributors) contributors 0 0)"

text \<open>The \<open>if\<close> chain that scales the count.\<close>

definition scaledBusFactor :: "nat \<Rightarrow> real" where
  "scaledBusFactor n =
     (if n \<le> 2 then 0
      else if n \<le> 4 then 0.25
      else if n \<le> 6 then 0.5
      else if n \<le> 8 then 0.75
      else 1)"

text \<open>
  \<open>calculateBusFactor\<close>. The first argument is what the data source answers for
  \<open>(owner, repo)\<close>; \<open>startTime\<close> and \<open>endTime\<close> are the two readings of
  \<open>performance.now()\<close> in milliseconds (the second is only taken on the path that
  does not fail). Nothing outside the \<open>try\<close> block can throw, so the function has
  no error result of its own. The messages written to the console are left out.
\<close>

definition calculateBusFactor ::
  "api_error + contributor list \<Rightarrow> real \<Rightarrow> real \<Rightarrow> real \<Rightarrow> metricResult" where
  "calculateBusFactor response threshold startTime endTime =
     (case response of
        Inl err \<Rightarrow> \<lparr>busfactor = - 1, busfactory_latency = - 1\<rparr>
      | Inr data \<Rightarrow>
          \<lparr>busfactor = scaledBusFactor (busFactor threshold data),
           busfactory_latency = (endTime - startTime) / 1000\<rparr>)"

section \<open>run.ts\<close>

text \<open>
  The regular expression \<open>/github\.com\/([^\/]+)\/([^\/]+)/\<close>. Both groups are
  greedy and are followed by a slash or by nothing they could match, so at a given
  start each group is the whole run of characters up to the next slash.
\<close>

definition notSlash :: "char \<Rightarrow> bool" where
  "notSlash c = (c \<noteq> CHR ''/'')"

definition matchHere :: "string \<Rightarrow> (string \<times> string) option" where
  "matchHere s =
     (if take 11 s = ''github.com/'' then
        (let afterHost = drop 11 s;
             g1 = takeWhile notSlash afterHost;
             afterG1 = dropWhile notSlash afterHost
         in if g1 = [] then None
            else (case afterG1 of
                    [] \<Rightarrow> None
                  | slash # afterSlash \<Rightarrow>
                      (let g2 = takeWhile notSlash afterSlash
                       in if g2 = [] then None else Some (g1, g2))))
      else None)"

text \<open>\<open>url.match\<close>: the leftmost position at which the expression matches.\<close>

fun matchUrl :: "string \<Rightarrow> (string \<times> string) option" where
  "matchUrl [] = matchHere []"
| "matchUrl (c # cs) =
     (case matchHere (c # cs) of Some m \<Rightarrow> Some m | None \<Rightarrow> matchUrl cs)"

definition extractOwnerAndRepo :: "string \<Rightarrow> string option \<times> string option" where
  "extractOwnerAndRepo url =
     (case matchUrl url of Some (g1, g2) \<Rightarrow> (Some g1, Some g2) | None \<Rightarrow> (None, None))"

text \<open>Truthiness of a \<open>string | null\<close>: \<open>null\<close> and the empty string are falsy.\<close>

fun truthy :: "string option \<Rightarrow> bool" where
  "truthy None = False"
| "truthy (Some s) = (s \<noteq> [])"

text \<open>
  The other four evaluators live in files of their own; what \<open>processUrls\<close> needs
  of them is that a call either rejects or resolves with a value and a latency. They
  are parameters of the model, with the data source and the clock readings of
  \<open>calculateBusFactor\<close>.
\<close>

datatype exn = Exn string

record env =
  calculateResponsiveness :: "string \<Rightarrow> string \<Rightarrow> exn + real \<times> real"
  calculateCorrectness :: "string \<Rightarrow> string \<Rightarrow> exn + real \<times> real"
  calculateLicenseCompatibility :: "string \<Rightarrow> string \<Rightarrow> exn + real \<times> real"
  calculateRampUpTime :: "string \<Rightarrow> string \<Rightarrow> exn + real \<times> real"
  listContributors :: "string \<Rightarrow> string \<Rightarrow> api_error + contributor list"
  busStartTime :: "string \<Rightarrow> string \<Rightarrow> real"
  busEndTime :: "string \<Rightarrow> string \<Rightarrow> real"

record netScoreRecord =
  URL :: string
  NetScore :: real
  NetScore_Latency :: real
  RampUp :: real
  RampUp_Latency :: real
  Correctness :: real
  Correctness_Latency :: real
  BusFactor :: real
  BusFactor_Latency :: real
  ResponsiveMaintainer :: real
  ResponsiveMaintainer_Latency :: real
  License :: real
  License_Latency :: real

text \<open>The body of the \<open>try\<close> block once \<open>Promise.all\<close> has resolved.\<close>

definition buildRecord ::
  "string \<Rightarrow> real \<times> real \<Rightarrow> real \<times> real \<Rightarrow> metricResult \<Rightarrow> real \<times> real \<Rightarrow> real \<times> real
     \<Rightarrow> netScoreRecord" where
  "buildRecord url resp corr bus lic ramp =
     (let responsiveness = fst resp; responsiveness_latency = snd resp;
          correctness = fst corr; correctness_latency = snd corr;
          license = fst lic; license_latency = snd lic;
          rampup = fst ramp; rampup_latency = snd ramp;
          responsivenessNet = max responsiveness 0;
          correctnessNet = max correctness 0;
          busfactorNet = max (busfactor bus) 0;
          licenseNet = max license 0;
          rampupNet = max rampup 0;
          netscore = 0.40 * responsivenessNet + 0.30 * correctnessNet + 0.15 * busfactorNet
                     + 0.10 * rampupNet + 0.05 * licenseNet;
          netscore_latency = responsiveness_latency + correctness_latency
                     + busfactory_latency bus + rampup_latency + license_latency
      in \<lparr>URL = url, NetScore = netscore, NetScore_Latency = netscore_latency,
          RampUp = rampup, RampUp_Latency = rampup_latency,
          Correctness = correctness, Correctness_Latency = correctness_latency,
          BusFactor = busfactor bus, BusFactor_Latency = busfactory_latency bus,
          ResponsiveMaintainer = responsiveness,
          ResponsiveMaintainer_Latency = responsiveness_latency,
          License = license, License_Latency = license_latency\<rparr>)"

text \<open>
  \<open>Promise.all\<close> over the five calls: it rejects as soon as one of them rejects and
  resolves with all five results otherwise. The bus-factor call passes the threshold 50.
\<close>

definition evaluateAll :: "env \<Rightarrow> string \<Rightarrow> string \<Rightarrow> string \<Rightarrow> exn + netScoreRecord" where
  "evaluateAll e url owner repo =
     (case calculateResponsiveness e owner repo of
        Inl x \<Rightarrow> Inl x
      | Inr resp \<Rightarrow>
     (case calculateCorrectness e owner repo of
        Inl x \<Rightarrow> Inl x
      | Inr corr \<Rightarrow>
     (case calculateLicenseCompatibility e owner repo of
        Inl x \<Rightarrow> Inl x
      | Inr lic \<Rightarrow>
     (case calculateRampUpTime e owner repo of
        Inl x \<Rightarrow> Inl x
      | Inr ramp \<Rightarrow>
          Inr (buildRecord url resp corr
                 (calculateBusFactor (listContributors e owner repo) 50
                    (busStartTime e owner repo) (busEndTime e owner repo))
                 lic ramp)))))"

text \<open>One turn of the \<open>for\<close> loop of \<open>processUrls\<close>: the records it prints.\<close>

definition processUrl :: "env \<Rightarrow> string \<Rightarrow> netScoreRecord list" where
  "processUrl e url =
     (case extractOwnerAndRepo url of
        (owner, repo) \<Rightarrow>
          if truthy owner \<and> truthy repo then
            (case evaluateAll e url (the owner) (the repo) of
               Inl err \<Rightarrow> []
             | Inr r \<Rightarrow> [r])
          else [])"

fun processLoop :: "env \<Rightarrow> string list \<Rightarrow> netScoreRecord list" where
  "processLoop e [] = []"
| "processLoop e (url # urls) = processUrl e url @ processLoop e urls"

text \<open>\<open>content.split('\n')\<close>\<close>

fun splitLines :: "string \<Rightarrow> string list" where
  "splitLines [] = [[]]"
| "splitLines (c # cs) =
     (if c = CHR 0x0A then [] # splitLines cs
      else (case splitLines cs of
              [] \<Rightarrow> [[c]]
            | l # ls \<Rightarrow> (c # l) # ls))"

text \<open>\<open>.filter(Boolean)\<close> drops the empty strings.\<close>

definition readUrls :: "string \<Rightarrow> string list" where
  "readUrls content = filter (\<lambda>l. l \<noteq> []) (splitLines content)"

text \<open>
  \<open>processUrls\<close>: the file is \<open>None\<close> when it does not exist. The result is the
  exit code with the records printed, in order.
\<close>

definition processUrls :: "env \<Rightarrow> string option \<Rightarrow> nat \<times> netScoreRecord list" where
  "processUrls e urlFile =
     (case urlFile of
        None \<Rightarrow> (1, [])
      | Some content \<Rightarrow> (0, processLoop e (readUrls content)))"

section \<open>Notions used in the statements\<close>




definition failureSentinel :: metricResult where
  "failureSentinel = \<lparr>busfactor = - 1, busfactory_latency = - 1\<rparr>"



text \<open>Ten contributors with ten commits each.\<close>

definition evenSplit :: "contributor list" where
  "evenSplit =
     map (\<lambda>l. \<lparr>login = l, commits = 10\<rparr>)
       [''A'', ''B'', ''C'', ''D'', ''E'', ''F'', ''G'', ''H'', ''I'', ''J'']"

text \<open>The example \<open>[(A,60),(B,25),(C,15)]\<close>.\<close>

definition skewed :: "contributor list" where
  "skewed = [\<lparr>login = ''A'', commits = 60\<rparr>, \<lparr>login = ''B'', commits = 25\<rparr>,
             \<lparr>login = ''C'', commits = 15\<rparr>]"



text \<open>Three contributors without a commit.\<close>

definition noCommits :: "contributor list" where
  "noCommits = map (\<lambda>l. \<lparr>login = l, commits = 0\<rparr>) [''p'', ''q'', ''r'']"

text \<open>
  An environment for the examples: the correctness evaluator throws for the
  repository \<open>broken\<close>, the data source has no repository \<open>missing\<close>, and all
  other calls succeed.
\<close>

definition sampleEnv :: env where
  "sampleEnv =
     \<lparr>calculateResponsiveness = (\<lambda>owner repo. Inr (1, 0.25)),
      calculateCorrectness =
        (\<lambda>owner repo. if repo = ''broken'' then Inl (Exn ''boom'') else Inr (0.5, 0.125)),
      calculateLicenseCompatibility = (\<lambda>owner repo. Inr (1, 0.125)),
      calculateRampUpTime = (\<lambda>owner repo. Inr (0.5, 0.125)),
      listContributors =
        (\<lambda>owner repo. if repo = ''missing'' then Inl NotFound else Inr evenSplit),
      busStartTime = (\<lambda>owner repo. 0),
      busEndTime = (\<lambda>owner repo. 1000)\<rparr>"

definition widgetUrl :: string where
  "widgetUrl = ''https://github.com/acme/widget''"

definition brokenUrl :: string where
  "brokenUrl = ''https://github.com/acme/broken''"

definition missingUrl :: string where
  "missingUrl = ''https://github.com/acme/missing''"

section \<open>Sorting and the total\<close>

lemma foldl_commits: "foldl (\<lambda>t c. t + commits c) a xs = a + sum_list (map commits xs)"
  by (induction xs arbitrary: a) simp_all

lemma totalCommits_sum: "totalCommits xs = sum_list (map commits xs)"
  by (simp add: totalCommits_def foldl_commits)

lemma mset_sortContributors: "mset (sortContributors xs) = mset xs"
  by (simp add: sortContributors_def)

lemma set_sortContributors: "set (sortContributors xs) = set xs"
  by (simp add: sortContributors_def)

lemma length_sortContributors: "length (sortContributors xs) = length xs"
  by (simp add: sortContributors_def)


lemma totalCommits_sortContributors: "totalCommits (sortContributors xs) = totalCommits xs"
proof -
  have "mset (map commits (sortContributors xs)) = mset (map commits xs)"
    by (simp add: mset_sortContributors)
  then have "sum_mset (mset (map commits (sortContributors xs)))
             = sum_mset (mset (map commits xs))"
    by (simp only:)
  then show ?thesis
    by (simp only: totalCommits_sum sum_mset_sum_list)
qed


section \<open>The scaling table\<close>

lemma scaledBusFactor_mono: "a \<le> b \<Longrightarrow> scaledBusFactor a \<le> scaledBusFactor b"
  by (simp add: scaledBusFactor_def)

lemma scaledBusFactor_levels: "scaledBusFactor n \<in> {0, 0.25, 0.5, 0.75, 1}"
  by (simp add: scaledBusFactor_def)

lemma scaledBusFactor_not_sentinel: "scaledBusFactor n \<noteq> - 1"
  by (simp add: scaledBusFactor_def)

section \<open>The loop\<close>

lemma busFactorLoop_zero_total:
  "\<forall>c \<in> set xs. commits c = 0 \<Longrightarrow> busFactorLoop threshold 0 xs 0 bf = bf + length xs"
  by (induction xs arbitrary: bf) (simp_all add: percentage_def js_div_def)

lemma totalCommits_zero: "totalCommits xs = 0 \<Longrightarrow> \<forall>c \<in> set xs. commits c = 0"
  by (simp add: totalCommits_sum)

lemma busFactor_zero_total:
  assumes "totalCommits data = 0"
  shows "busFactor threshold data = length data"
proof -
  have "\<forall>c \<in> set (sortContributors data). commits c = 0"
    using totalCommits_zero [OF assms] by (simp add: set_sortContributors)
  then show ?thesis
    using assms
    by (simp add: busFactor_def totalCommits_sortContributors busFactorLoop_zero_total
        length_sortContributors)
qed









section \<open>The raw bus factor\<close>

lemma busFactor_unfold:
  "busFactor threshold data =
     busFactorLoop threshold (totalCommits (sortContributors data)) (sortContributors data) 0 0"
  by (simp add: busFactor_def Let_def)





lemma calculateBusFactor_success:
  "calculateBusFactor (Inr data) threshold startTime endTime =
     \<lparr>busfactor = scaledBusFactor (busFactor threshold data),
      busfactory_latency = (endTime - startTime) / 1000\<rparr>"
  by (simp add: calculateBusFactor_def)

lemma calculateBusFactor_failure:
  "calculateBusFactor (Inl err) threshold startTime endTime = failureSentinel"
  by (simp add: calculateBusFactor_def failureSentinel_def)

lemma busFactor_evenSplit: "busFactor 50 evenSplit = 5"
  by (simp add: busFactor_unfold evenSplit_def sortContributors_def totalCommits_def
      percentage_def js_div_def)

section \<open>Claims about the bus-factor evaluator\<close>

text \<open>
  C2. When the data source raises, \<open>calculateBusFactor\<close> returns the pair
  \<open>{-1, -1}\<close>; being a total function of the model, it raises nothing. With a
  monotonic clock (\<open>performance.now()\<close> never runs backwards), the value is \<open>-1\<close>
  exactly when the latency is \<open>-1\<close>, whatever the data source answered.
\<close>

theorem calculateBusFactor_sentinel_paired:
  "calculateBusFactor (Inl err) threshold startTime endTime
     = \<lparr>busfactor = - 1, busfactory_latency = - 1\<rparr>
   \<and> (startTime \<le> endTime \<longrightarrow>
        (busfactor (calculateBusFactor response threshold startTime endTime) = - 1)
        = (busfactory_latency (calculateBusFactor response threshold startTime endTime) = - 1))"
proof (intro conjI impI)
  show "calculateBusFactor (Inl err) threshold startTime endTime
        = \<lparr>busfactor = - 1, busfactory_latency = - 1\<rparr>"
    by (simp add: calculateBusFactor_def)
next
  assume clock: "startTime \<le> endTime"
  show "(busfactor (calculateBusFactor response threshold startTime endTime) = - 1)
        = (busfactory_latency (calculateBusFactor response threshold startTime endTime) = - 1)"
  proof (cases response)
    case (Inl err')
    then show ?thesis by (simp add: calculateBusFactor_def)
  next
    case (Inr data)
    have "(endTime - startTime) / 1000 \<noteq> - 1"
      using clock by simp
    with Inr show ?thesis
      by (simp add: calculateBusFactor_success scaledBusFactor_not_sentinel)
  qed
qed

theorem calculateBusFactor_sentinel_paired_witness:
  "calculateBusFactor (Inl RateLimited) 50 0 2000
     = \<lparr>busfactor = - 1, busfactory_latency = - 1\<rparr>
   \<and> (0::real) \<le> 2000
   \<and> busfactor (calculateBusFactor (Inr skewed) 50 0 2000) \<noteq> - 1
   \<and> busfactory_latency (calculateBusFactor (Inr skewed) 50 0 2000) \<noteq> - 1"
  using calculateBusFactor_sentinel_paired [of RateLimited 50 0 2000 "Inr skewed"]
  by (simp add: calculateBusFactor_success)




text \<open>
  C4, as amended. For a contributor list whose total commit count is 0 the division
  raises nothing: the percentage is \<open>NaN\<close>, no comparison with it holds, the loop
  visits every contributor, and \<open>calculateBusFactor\<close> returns the score of the
  contributor count with the measured latency, not the failure pair.
\<close>

theorem calculateBusFactor_zero_total:
  "totalCommits data = 0 \<Longrightarrow>
     busFactor threshold data = length data
     \<and> calculateBusFactor (Inr data) threshold startTime endTime
         = \<lparr>busfactor = scaledBusFactor (length data),
            busfactory_latency = (endTime - startTime) / 1000\<rparr>
     \<and> busfactor (calculateBusFactor (Inr data) threshold startTime endTime) \<noteq> - 1"
  by (simp add: calculateBusFactor_success busFactor_zero_total scaledBusFactor_not_sentinel)

theorem calculateBusFactor_zero_total_witness:
  "totalCommits noCommits = 0
   \<and> busFactor 50 noCommits = 3
   \<and> calculateBusFactor (Inr noCommits) 50 0 2000
       = \<lparr>busfactor = 0.25, busfactory_latency = 2\<rparr>"
proof -
  have zero: "totalCommits noCommits = 0"
    by (simp add: noCommits_def totalCommits_def)
  show ?thesis
    using calculateBusFactor_zero_total [OF zero, of 50 0 2000] zero
    by (simp add: noCommits_def scaledBusFactor_def)
qed

text \<open>
  C4, as stated, fails: for one contributor without a commit the total is 0 and the
  result is the score 0 with a latency of one second, not \<open>{-1, -1}\<close>.
\<close>

theorem calculateBusFactor_zero_total_counterexample:
  "totalCommits [\<lparr>login = ''A'', commits = 0\<rparr>] = 0
   \<and> calculateBusFactor (Inr [\<lparr>login = ''A'', commits = 0\<rparr>]) 50 0 1000
       = \<lparr>busfactor = 0, busfactory_latency = 1\<rparr>
   \<and> calculateBusFactor (Inr [\<lparr>login = ''A'', commits = 0\<rparr>]) 50 0 1000
       \<noteq> \<lparr>busfactor = - 1, busfactory_latency = - 1\<rparr>"
  by (simp add: calculateBusFactor_success busFactor_unfold sortContributors_def
      totalCommits_def percentage_def js_div_def scaledBusFactor_def)

text \<open>
  C6. The scaling is the step table: a count of at most 2 gives 0, of at most 4 gives
  0.25, of at most 6 gives 0.5, of at most 8 gives 0.75, a larger one gives 1; it is
  what \<open>calculateBusFactor\<close> applies to the raw count, and it is non-decreasing.
\<close>

theorem scaledBusFactor_step_table:
  "(raw \<le> 2 \<longrightarrow> scaledBusFactor raw = 0)
   \<and> (2 < raw \<and> raw \<le> 4 \<longrightarrow> scaledBusFactor raw = 0.25)
   \<and> (4 < raw \<and> raw \<le> 6 \<longrightarrow> scaledBusFactor raw = 0.5)
   \<and> (6 < raw \<and> raw \<le> 8 \<longrightarrow> scaledBusFactor raw = 0.75)
   \<and> (8 < raw \<longrightarrow> scaledBusFactor raw = 1)
   \<and> (\<forall>a b. a \<le> b \<longrightarrow> scaledBusFactor a \<le> scaledBusFactor b)
   \<and> busfactor (calculateBusFactor (Inr data) threshold startTime endTime)
       = scaledBusFactor (busFactor threshold data)"
proof (intro conjI allI impI)
  fix a b :: nat
  assume "a \<le> b"
  then show "scaledBusFactor a \<le> scaledBusFactor b"
    by (rule scaledBusFactor_mono)
next
  show "busfactor (calculateBusFactor (Inr data) threshold startTime endTime)
        = scaledBusFactor (busFactor threshold data)"
    by (simp add: calculateBusFactor_success)
qed (simp_all add: scaledBusFactor_def)

theorem scaledBusFactor_step_table_witness:
  "scaledBusFactor 1 = 0 \<and> scaledBusFactor 2 = 0
   \<and> scaledBusFactor 3 = 0.25 \<and> scaledBusFactor 4 = 0.25
   \<and> scaledBusFactor 5 = 0.5 \<and> scaledBusFactor 6 = 0.5
   \<and> scaledBusFactor 7 = 0.75 \<and> scaledBusFactor 8 = 0.75
   \<and> scaledBusFactor 9 = 1
   \<and> (2::nat) \<le> 9 \<and> scaledBusFactor 2 \<le> scaledBusFactor 9"
proof -
  have m: "(2::nat) \<le> 9 \<longrightarrow> scaledBusFactor 2 \<le> scaledBusFactor 9"
    using scaledBusFactor_step_table [of 2 "[]" 50 0 0] by blast
  show ?thesis
    using scaledBusFactor_step_table [of 1 "[]" 50 0 0]
      scaledBusFactor_step_table [of 2 "[]" 50 0 0]
      scaledBusFactor_step_table [of 3 "[]" 50 0 0]
      scaledBusFactor_step_table [of 4 "[]" 50 0 0]
      scaledBusFactor_step_table [of 5 "[]" 50 0 0]
      scaledBusFactor_step_table [of 6 "[]" 50 0 0]
      scaledBusFactor_step_table [of 7 "[]" 50 0 0]
      scaledBusFactor_step_table [of 8 "[]" 50 0 0]
      scaledBusFactor_step_table [of 9 "[]" 50 0 0] m
    by simp
qed




text \<open>
  C9. When the data source answers with an empty contributor list, the total is 0,
  the loop body never runs, the raw count stays 0, and \<open>calculateBusFactor\<close>
  returns the value 0 with the measured latency, which a monotonic clock makes
  non-negative; the result is not the failure pair.
\<close>

theorem calculateBusFactor_empty_list:
  "startTime \<le> endTime \<Longrightarrow>
     totalCommits [] = 0
     \<and> busFactor threshold [] = 0
     \<and> busfactor (calculateBusFactor (Inr []) threshold startTime endTime) = 0
     \<and> busfactory_latency (calculateBusFactor (Inr []) threshold startTime endTime)
         = (endTime - startTime) / 1000
     \<and> 0 \<le> busfactory_latency (calculateBusFactor (Inr []) threshold startTime endTime)
     \<and> calculateBusFactor (Inr []) threshold startTime endTime \<noteq> failureSentinel"
  by (simp add: calculateBusFactor_success busFactor_unfold sortContributors_def
      totalCommits_def scaledBusFactor_def failureSentinel_def)

theorem calculateBusFactor_empty_list_witness:
  "(0::real) \<le> 1500
   \<and> busfactor (calculateBusFactor (Inr []) 50 0 1500) = 0
   \<and> busfactory_latency (calculateBusFactor (Inr []) 50 0 1500) = 1.5
   \<and> calculateBusFactor (Inr []) 50 0 1500 \<noteq> failureSentinel"
proof -
  have clock: "(0::real) \<le> 1500" by simp
  show ?thesis
    using calculateBusFactor_empty_list [OF clock, of 50] clock by simp
qed

text \<open>
  C10. A result of \<open>calculateBusFactor\<close> other than the failure pair has its value
  among 0, 0.25, 0.5, 0.75 and 1 and, the clock being monotonic, a non-negative latency.
\<close>

theorem calculateBusFactor_success_range:
  assumes "startTime \<le> endTime"
    and "calculateBusFactor response threshold startTime endTime \<noteq> failureSentinel"
  shows "busfactor (calculateBusFactor response threshold startTime endTime)
           \<in> {0, 0.25, 0.5, 0.75, 1}
         \<and> 0 \<le> busfactory_latency (calculateBusFactor response threshold startTime endTime)"
proof (cases response)
  case (Inl err)
  with assms(2) show ?thesis by (simp add: calculateBusFactor_failure)
next
  case (Inr data)
  have "scaledBusFactor (busFactor threshold data) \<in> {0, 0.25, 0.5, 0.75, 1}"
    by (rule scaledBusFactor_levels)
  with Inr assms(1) show ?thesis by (simp add: calculateBusFactor_success)
qed

theorem calculateBusFactor_success_range_witness:
  "(0::real) \<le> 800
   \<and> calculateBusFactor (Inr evenSplit) 50 0 800 \<noteq> failureSentinel
   \<and> busfactor (calculateBusFactor (Inr evenSplit) 50 0 800) = 0.5
   \<and> busfactory_latency (calculateBusFactor (Inr evenSplit) 50 0 800) = 0.8"
proof -
  have clock: "(0::real) \<le> 800" by simp
  have ok: "calculateBusFactor (Inr evenSplit) 50 0 800 \<noteq> failureSentinel"
    by (simp add: calculateBusFactor_success failureSentinel_def)
  have "busfactor (calculateBusFactor (Inr evenSplit) 50 0 800) \<in> {0, 0.25, 0.5, 0.75, 1}
        \<and> 0 \<le> busfactory_latency (calculateBusFactor (Inr evenSplit) 50 0 800)"
    using clock ok by (rule calculateBusFactor_success_range)
  then show ?thesis
    using clock ok
    by (simp add: calculateBusFactor_success busFactor_evenSplit scaledBusFactor_def)
qed

section \<open>The batch runner\<close>

lemma matchHere_groups: "matchHere s = Some (g1, g2) \<Longrightarrow> g1 \<noteq> [] \<and> g2 \<noteq> []"
  by (auto simp: matchHere_def Let_def split: if_splits list.splits)

lemma matchUrl_groups: "matchUrl s = Some (g1, g2) \<Longrightarrow> g1 \<noteq> [] \<and> g2 \<noteq> []"
proof (induction s)
  case Nil
  then show ?case by (simp add: matchHere_groups)
next
  case (Cons c cs)
  show ?case
  proof (cases "matchHere (c # cs)")
    case None
    with Cons show ?thesis by simp
  next
    case (Some m)
    with Cons.prems have "matchHere (c # cs) = Some (g1, g2)" by simp
    then show ?thesis by (rule matchHere_groups)
  qed
qed

lemma extractOwnerAndRepo_Some:
  "(extractOwnerAndRepo url = (Some owner, Some repo)) = (matchUrl url = Some (owner, repo))"
  by (auto simp: extractOwnerAndRepo_def split: option.splits)

lemma processUrl_unmatched: "matchUrl url = None \<Longrightarrow> processUrl e url = []"
  by (simp add: processUrl_def extractOwnerAndRepo_def)

lemma processUrl_matched:
  assumes "matchUrl url = Some (owner, repo)"
  shows "processUrl e url =
           (case evaluateAll e url owner repo of Inl err \<Rightarrow> [] | Inr r \<Rightarrow> [r])"
proof -
  have "owner \<noteq> [] \<and> repo \<noteq> []"
    using assms by (rule matchUrl_groups)
  with assms show ?thesis
    by (simp add: processUrl_def extractOwnerAndRepo_def)
qed


lemma processLoop_concat: "processLoop e urls = concat (map (processUrl e) urls)"
  by (induction urls) simp_all




lemma evaluateAll_success:
  assumes "calculateResponsiveness e owner repo = Inr resp"
    and "calculateCorrectness e owner repo = Inr corr"
    and "calculateLicenseCompatibility e owner repo = Inr lic"
    and "calculateRampUpTime e owner repo = Inr ramp"
  shows "evaluateAll e url owner repo =
           Inr (buildRecord url resp corr
                  (calculateBusFactor (listContributors e owner repo) 50
                     (busStartTime e owner repo) (busEndTime e owner repo))
                  lic ramp)"
  using assms by (simp add: evaluateAll_def)

lemma evaluateAll_built:
  assumes "evaluateAll e url owner repo = Inr r"
  shows "\<exists>resp corr bus lic ramp. r = buildRecord url resp corr bus lic ramp"
proof -
  obtain resp corr lic ramp where
    "r = buildRecord url resp corr
           (calculateBusFactor (listContributors e owner repo) 50
              (busStartTime e owner repo) (busEndTime e owner repo))
           lic ramp"
    using assms by (auto simp: evaluateAll_def split: sum.splits)
  then show ?thesis by blast
qed

lemma processUrl_built:
  assumes "r \<in> set (processUrl e url)"
  shows "\<exists>resp corr bus lic ramp. r = buildRecord url resp corr bus lic ramp"
proof (cases "matchUrl url")
  case None
  with assms show ?thesis by (simp add: processUrl_unmatched)
next
  case (Some m)
  obtain owner repo where "m = (owner, repo)" by (cases m)
  with Some have mu: "matchUrl url = Some (owner, repo)" by simp
  then have "evaluateAll e url owner repo = Inr r"
    using assms by (cases "evaluateAll e url owner repo") (simp_all add: processUrl_matched)
  then show ?thesis by (rule evaluateAll_built)
qed

lemma processLoop_built:
  assumes "r \<in> set (processLoop e urls)"
  shows "\<exists>url resp corr bus lic ramp. r = buildRecord url resp corr bus lic ramp"
proof -
  obtain url where "r \<in> set (processUrl e url)"
    using assms by (auto simp: processLoop_concat)
  then show ?thesis using processUrl_built by blast
qed

lemma NetScore_buildRecord:
  "NetScore (buildRecord url resp corr bus lic ramp) =
     0.40 * max (fst resp) 0 + 0.30 * max (fst corr) 0 + 0.15 * max (busfactor bus) 0
     + 0.10 * max (fst ramp) 0 + 0.05 * max (fst lic) 0"
  by (simp add: buildRecord_def Let_def)

lemma NetScore_Latency_buildRecord:
  "NetScore_Latency (buildRecord url resp corr bus lic ramp) =
     snd resp + snd corr + busfactory_latency bus + snd ramp + snd lic"
  by (simp add: buildRecord_def Let_def)

lemma latencies_buildRecord:
  "ResponsiveMaintainer_Latency (buildRecord url resp corr bus lic ramp) = snd resp"
  "Correctness_Latency (buildRecord url resp corr bus lic ramp) = snd corr"
  "BusFactor_Latency (buildRecord url resp corr bus lic ramp) = busfactory_latency bus"
  "RampUp_Latency (buildRecord url resp corr bus lic ramp) = snd ramp"
  "License_Latency (buildRecord url resp corr bus lic ramp) = snd lic"
  by (simp_all add: buildRecord_def Let_def)

lemma weighted_sum_bounds:
  fixes r c b u l :: real
  assumes "0 \<le> r" "r \<le> 1" "0 \<le> c" "c \<le> 1" "0 \<le> b" "b \<le> 1"
    and "0 \<le> u" "u \<le> 1" "0 \<le> l" "l \<le> 1"
  shows "0 \<le> 0.40 * r + 0.30 * c + 0.15 * b + 0.10 * u + 0.05 * l"
    and "0.40 * r + 0.30 * c + 0.15 * b + 0.10 * u + 0.05 * l \<le> 1"
  using assms by simp_all

lemma matchUrl_samples:
  "matchUrl widgetUrl = Some (''acme'', ''widget'')"
  "matchUrl brokenUrl = Some (''acme'', ''broken'')"
  "matchUrl missingUrl = Some (''acme'', ''missing'')"
  "matchUrl ''not-a-url'' = None"
  by (simp_all add: widgetUrl_def brokenUrl_def missingUrl_def matchHere_def notSlash_def)

lemma sample_widget:
  "processUrl sampleEnv widgetUrl =
     [buildRecord widgetUrl (1, 0.25) (0.5, 0.125)
        \<lparr>busfactor = 0.5, busfactory_latency = 1\<rparr> (1, 0.125) (0.5, 0.125)]"
  by (simp add: processUrl_matched [OF matchUrl_samples(1)] evaluateAll_def sampleEnv_def
      calculateBusFactor_success busFactor_evenSplit scaledBusFactor_def)

lemma sample_missing:
  "processUrl sampleEnv missingUrl =
     [buildRecord missingUrl (1, 0.25) (0.5, 0.125)
        \<lparr>busfactor = - 1, busfactory_latency = - 1\<rparr> (1, 0.125) (0.5, 0.125)]"
  by (simp add: processUrl_matched [OF matchUrl_samples(3)] evaluateAll_def sampleEnv_def
      calculateBusFactor_def)





section \<open>Claims about the aggregator and the batch runner\<close>

text \<open>
  C1. For a line from which owner and repository are extracted and for which all five
  evaluators succeed with a value between 0 and 1, \<open>processUrls\<close> emits one record
  whose \<open>NetScore\<close> is 0.40 times the responsiveness plus 0.30 times the correctness
  plus 0.15 times the bus factor plus 0.10 times the ramp-up plus 0.05 times the
  license, each value clamped from below at 0, and this \<open>NetScore\<close> lies between 0
  and 1.
\<close>

theorem netScore_weighted_sum:
  assumes "extractOwnerAndRepo url = (Some owner, Some repo)"
    and "calculateResponsiveness e owner repo = Inr (responsiveness, responsiveness_latency)"
    and "calculateCorrectness e owner repo = Inr (correctness, correctness_latency)"
    and "calculateLicenseCompatibility e owner repo = Inr (license, license_latency)"
    and "calculateRampUpTime e owner repo = Inr (rampup, rampup_latency)"
    and "calculateBusFactor (listContributors e owner repo) 50
           (busStartTime e owner repo) (busEndTime e owner repo) = bus"
    and "0 \<le> responsiveness \<and> responsiveness \<le> 1"
    and "0 \<le> correctness \<and> correctness \<le> 1"
    and "0 \<le> busfactor bus \<and> busfactor bus \<le> 1"
    and "0 \<le> rampup \<and> rampup \<le> 1"
    and "0 \<le> license \<and> license \<le> 1"
  shows "\<exists>r. processUrl e url = [r]
           \<and> NetScore r = 0.40 * max responsiveness 0 + 0.30 * max correctness 0
                + 0.15 * max (busfactor bus) 0 + 0.10 * max rampup 0 + 0.05 * max license 0
           \<and> 0 \<le> NetScore r \<and> NetScore r \<le> 1"
proof -
  let ?r = "buildRecord url (responsiveness, responsiveness_latency)
              (correctness, correctness_latency) bus (license, license_latency)
              (rampup, rampup_latency)"
  have mu: "matchUrl url = Some (owner, repo)"
    using assms(1) by (simp add: extractOwnerAndRepo_Some)
  have "evaluateAll e url owner repo = Inr ?r"
    using evaluateAll_success [OF assms(2) assms(3) assms(4) assms(5), of url]
    by (simp add: assms(6))
  then have emitted: "processUrl e url = [?r]"
    by (simp add: processUrl_matched [OF mu])
  have clamp: "max responsiveness 0 = responsiveness" "max correctness 0 = correctness"
    "max (busfactor bus) 0 = busfactor bus" "max rampup 0 = rampup" "max license 0 = license"
    using assms(7-11) by simp_all
  have score: "NetScore ?r = 0.40 * max responsiveness 0 + 0.30 * max correctness 0
                + 0.15 * max (busfactor bus) 0 + 0.10 * max rampup 0 + 0.05 * max license 0"
    by (simp add: NetScore_buildRecord)
  have lower: "0 \<le> NetScore ?r"
    unfolding score clamp using assms(7-11) by (intro weighted_sum_bounds(1)) simp_all
  have upper: "NetScore ?r \<le> 1"
    unfolding score clamp using assms(7-11) by (intro weighted_sum_bounds(2)) simp_all
  show ?thesis
    using emitted score lower upper by blast
qed

theorem netScore_weighted_sum_witness:
  "extractOwnerAndRepo widgetUrl = (Some ''acme'', Some ''widget'')
   \<and> (\<exists>r. processUrl sampleEnv widgetUrl = [r] \<and> NetScore r = 0.725)"
proof -
  have x: "extractOwnerAndRepo widgetUrl = (Some ''acme'', Some ''widget'')"
    by (simp add: extractOwnerAndRepo_Some matchUrl_samples)
  have r: "calculateResponsiveness sampleEnv ''acme'' ''widget'' = Inr (1, 0.25)"
    and c: "calculateCorrectness sampleEnv ''acme'' ''widget'' = Inr (0.5, 0.125)"
    and l: "calculateLicenseCompatibility sampleEnv ''acme'' ''widget'' = Inr (1, 0.125)"
    and u: "calculateRampUpTime sampleEnv ''acme'' ''widget'' = Inr (0.5, 0.125)"
    by (simp_all add: sampleEnv_def)
  have b: "calculateBusFactor (listContributors sampleEnv ''acme'' ''widget'') 50
             (busStartTime sampleEnv ''acme'' ''widget'') (busEndTime sampleEnv ''acme'' ''widget'')
           = \<lparr>busfactor = 0.5, busfactory_latency = 1\<rparr>"
    by (simp add: sampleEnv_def calculateBusFactor_success busFactor_evenSplit
        scaledBusFactor_def)
  have "\<exists>r. processUrl sampleEnv widgetUrl = [r]
          \<and> NetScore r = 0.40 * max 1 0 + 0.30 * max 0.5 0
               + 0.15 * max (busfactor \<lparr>busfactor = 0.5, busfactory_latency = 1\<rparr>) 0
               + 0.10 * max 0.5 0 + 0.05 * max 1 0
          \<and> 0 \<le> NetScore r \<and> NetScore r \<le> 1"
    by (rule netScore_weighted_sum [OF x r c l u b]) simp_all
  then obtain r where "processUrl sampleEnv widgetUrl = [r]" and "NetScore r = 0.725"
    by auto
  with x show ?thesis by blast
qed

text \<open>
  C5. The \<open>NetScore_Latency\<close> of every emitted record is the plain sum of its five
  metric latencies; nothing is clamped, so a failed bus-factor evaluation contributes
  its \<open>-1\<close>, and there are outcomes with a negative total: for the repository that
  the data source does not have, the four other latencies add up to 0.625 and the
  reported total is negative.
\<close>

theorem netScore_Latency_plain_sum:
  "(\<forall>r \<in> set (snd (processUrls e urlFile)).
       NetScore_Latency r = ResponsiveMaintainer_Latency r + Correctness_Latency r
         + BusFactor_Latency r + RampUp_Latency r + License_Latency r)
   \<and> NetScore_Latency
        (buildRecord url (responsiveness, responsiveness_latency)
           (correctness, correctness_latency) bus (license, license_latency)
           (rampup, rampup_latency))
       = responsiveness_latency + correctness_latency + busfactory_latency bus
         + rampup_latency + license_latency
   \<and> NetScore_Latency
        (buildRecord url (responsiveness, responsiveness_latency)
           (correctness, correctness_latency)
           (calculateBusFactor (Inl err) threshold startTime endTime)
           (license, license_latency) (rampup, rampup_latency))
       = responsiveness_latency + correctness_latency + (- 1)
         + rampup_latency + license_latency
   \<and> (\<exists>r. processUrl sampleEnv missingUrl = [r] \<and> NetScore_Latency r < 0)"
proof (intro conjI ballI)
  fix r
  assume "r \<in> set (snd (processUrls e urlFile))"
  then have "r \<in> set (processLoop e (case urlFile of None \<Rightarrow> [] | Some c \<Rightarrow> readUrls c))"
    by (cases urlFile) (simp_all add: processUrls_def)
  then obtain u resp corr b lic ramp where "r = buildRecord u resp corr b lic ramp"
    using processLoop_built by blast
  then show "NetScore_Latency r = ResponsiveMaintainer_Latency r + Correctness_Latency r
               + BusFactor_Latency r + RampUp_Latency r + License_Latency r"
    by (simp add: NetScore_Latency_buildRecord latencies_buildRecord)
next
  show "\<exists>r. processUrl sampleEnv missingUrl = [r] \<and> NetScore_Latency r < 0"
    by (simp add: sample_missing NetScore_Latency_buildRecord)
qed (simp_all add: NetScore_Latency_buildRecord calculateBusFactor_def)

theorem netScore_Latency_plain_sum_witness:
  "(\<exists>r. r \<in> set (snd (processUrls sampleEnv (Some missingUrl)))
        \<and> NetScore_Latency r = - 0.375
        \<and> BusFactor_Latency r = - 1)"
proof -
  let ?r = "buildRecord missingUrl (1, 0.25) (0.5, 0.125)
              \<lparr>busfactor = - 1, busfactory_latency = - 1\<rparr> (1, 0.125) (0.5, 0.125)"
  have lines: "readUrls missingUrl = [missingUrl]"
    by (simp add: readUrls_def missingUrl_def)
  have mem: "?r \<in> set (snd (processUrls sampleEnv (Some missingUrl)))"
    by (simp add: processUrls_def lines sample_missing)
  have "NetScore_Latency ?r = ResponsiveMaintainer_Latency ?r + Correctness_Latency ?r
          + BusFactor_Latency ?r + RampUp_Latency ?r + License_Latency ?r"
    using netScore_Latency_plain_sum [of sampleEnv "Some missingUrl"] mem by blast
  then have "NetScore_Latency ?r = - 0.375 \<and> BusFactor_Latency ?r = - 1"
    by (simp add: latencies_buildRecord)
  with mem show ?thesis by blast
qed



end
